theory Spec2Isabelle
  imports
    Complex_Main
    "HOL-Library.List_Lexorder"
    "HOL-Library.Char_ord"
    "HOL-Library.Product_Lexorder"
begin

section \<open>Data model\<close>

text \<open>
  The sales fact table is a pandas DataFrame; it is modelled as the list of its rows, in
  row order. Only the columns that the metrics and the period filter read are kept.
  A nullable column is an \<open>option\<close> (\<open>None\<close> is pandas' NaN / None). Prices and
  scores are floats in the source; they are idealised as exact reals.

  A cell of a timestamp column is either missing (\<open>NaT\<close>), a parsed instant (\<open>Stamp\<close>,
  nanoseconds since 1970-01-01 00:00:00, as in datetime64[ns]) or still the raw text read
  from the CSV file (\<open>Text\<close>), which \<open>pd.to_datetime\<close> has to parse.
\<close>

datatype error = ValueError | ParserError | OutOfBoundsDatetime

datatype datecell = NaT | Stamp int | Text string

record sales_row =
  order_id :: string
  order_item_id :: nat
  price :: real
  order_purchase_timestamp :: datecell
  year :: "int option"
  month :: "int option"
  product_category_name :: "string option"
  customer_state :: "string option"
  review_score :: "real option"
  delivery_speed_days :: "int option"
  delivery_category :: "string option"

section \<open>The pandas operations used by the metrics\<close>

text \<open>\<open>Series.mean()\<close>: missing values are skipped; the mean of no value is NaN.\<close>

definition mean :: "real list \<Rightarrow> real option" where
  "mean xs = (if xs = [] then None else Some (sum_list xs / real (length xs)))"

definition mean_skipna :: "real option list \<Rightarrow> real option" where
  "mean_skipna xs = mean (List.map_filter id xs)"

text \<open>
  \<open>df.groupby(key)\<close> with the default options: rows whose key is missing are dropped
  (\<open>dropna=True\<close>) and the groups come out sorted by key (\<open>sort=True\<close>), one per
  distinct key.
\<close>

definition group_keys :: "('r \<Rightarrow> 'k option) \<Rightarrow> 'r list \<Rightarrow> ('k :: linorder) list" where
  "group_keys key rows = sort (remdups (List.map_filter key rows))"

definition group_rows :: "('r \<Rightarrow> 'k option) \<Rightarrow> 'r list \<Rightarrow> 'k \<Rightarrow> 'r list" where
  "group_rows key rows k = filter (\<lambda>r. key r = Some k) rows"

definition groupby_sum ::
  "('r \<Rightarrow> 'k option) \<Rightarrow> ('r \<Rightarrow> real) \<Rightarrow> 'r list \<Rightarrow> (('k :: linorder) \<times> real) list" where
  "groupby_sum key val rows =
     map (\<lambda>k. (k, sum_list (map val (group_rows key rows k)))) (group_keys key rows)"

definition groupby_size :: "('r \<Rightarrow> 'k option) \<Rightarrow> 'r list \<Rightarrow> (('k :: linorder) \<times> nat) list" where
  "groupby_size key rows = map (\<lambda>k. (k, length (group_rows key rows k))) (group_keys key rows)"

definition groupby_mean ::
  "('r \<Rightarrow> 'k option) \<Rightarrow> ('r \<Rightarrow> real option) \<Rightarrow> 'r list \<Rightarrow> (('k :: linorder) \<times> real option) list" where
  "groupby_mean key val rows =
     map (\<lambda>k. (k, mean_skipna (map val (group_rows key rows k)))) (group_keys key rows)"

section \<open>Business metrics\<close>

definition calculate_total_revenue :: "sales_row list \<Rightarrow> real" where
  "calculate_total_revenue sales_data = sum_list (map price sales_data)"

datatype revenue_table =
    ByYear "(int \<times> real) list"
  | ByMonth "(int \<times> real) list"
  | ByYearMonth "((int \<times> int) \<times> real) list"

definition year_month :: "sales_row \<Rightarrow> (int \<times> int) option" where
  "year_month r = (case year r of None \<Rightarrow> None
                   | Some y \<Rightarrow> (case month r of None \<Rightarrow> None | Some m \<Rightarrow> Some (y, m)))"

definition calculate_revenue_by_period :: "sales_row list \<Rightarrow> string \<Rightarrow> error + revenue_table" where
  "calculate_revenue_by_period sales_data period =
     (if period = ''year'' then Inr (ByYear (groupby_sum year price sales_data))
      else if period = ''month'' then Inr (ByMonth (groupby_sum month price sales_data))
      else if period = ''year-month'' then Inr (ByYearMonth (groupby_sum year_month price sales_data))
      else Inl ValueError)"

definition calculate_revenue_growth :: "real \<Rightarrow> real \<Rightarrow> real" where
  "calculate_revenue_growth current_revenue previous_revenue =
     (if previous_revenue = 0 then 0
      else (current_revenue - previous_revenue) / previous_revenue)"

definition calculate_average_order_value :: "sales_row list \<Rightarrow> real option" where
  "calculate_average_order_value sales_data =
     mean (map snd (groupby_sum (\<lambda>r. Some (order_id r)) price sales_data))"

definition calculate_total_orders :: "sales_row list \<Rightarrow> nat" where
  "calculate_total_orders sales_data = length (remdups (map order_id sales_data))"

definition calculate_items_per_order :: "sales_row list \<Rightarrow> real option" where
  "calculate_items_per_order sales_data =
     mean (map (\<lambda>(k, n). real n) (groupby_size (\<lambda>r. Some (order_id r)) sales_data))"

text \<open>
  \<open>sort_values(ascending=False)\<close> on the summed prices. Rows of equal revenue keep
  their group order here; pandas leaves the order of ties open.
\<close>

definition calculate_revenue_by_category :: "sales_row list \<Rightarrow> (string \<times> real) list" where
  "calculate_revenue_by_category sales_data =
     sort_key (\<lambda>(c, v). - v) (groupby_sum product_category_name price sales_data)"

definition calculate_revenue_by_state :: "sales_row list \<Rightarrow> (string \<times> real) list" where
  "calculate_revenue_by_state sales_data =
     sort_key (\<lambda>(c, v). - v) (groupby_sum customer_state price sales_data)"

definition calculate_average_review_score :: "sales_row list \<Rightarrow> real option" where
  "calculate_average_review_score sales_data = mean_skipna (map review_score sales_data)"

text \<open>
  \<open>DataFrame.drop_duplicates()\<close> keeps the first occurrence of every row, in row order.
  The sibling metrics project on the order and the attribute and drop the duplicates
  before they aggregate.
\<close>

fun drop_duplicates :: "'a list \<Rightarrow> 'a list" where
  "drop_duplicates [] = []"
| "drop_duplicates (x # xs) = x # drop_duplicates (filter (\<lambda>y. y \<noteq> x) xs)"

definition calculate_average_delivery_time :: "sales_row list \<Rightarrow> real option" where
  "calculate_average_delivery_time sales_data =
     (let delivery_data = drop_duplicates (map (\<lambda>r. (order_id r, delivery_speed_days r)) sales_data)
      in mean_skipna (map (\<lambda>(oid, d). map_option real_of_int d) delivery_data))"

definition category_order :: "string list" where
  "category_order = [''1-3 days'', ''4-7 days'', ''8+ days'']"

text \<open>
  The position of a label in the ordered categorical; a label outside the categories
  becomes missing and sorts last.
\<close>

definition category_rank :: "string option \<Rightarrow> nat" where
  "category_rank c =
     (if c = Some ''1-3 days'' then 0 else if c = Some ''4-7 days'' then 1
      else if c = Some ''8+ days'' then 2 else 3)"

definition calculate_review_by_delivery_speed ::
  "sales_row list \<Rightarrow> (string option \<times> real option) list" where
  "calculate_review_by_delivery_speed sales_data =
     (let review_delivery =
            drop_duplicates (map (\<lambda>r. (order_id r, delivery_category r, review_score r)) sales_data);
          result = groupby_mean (\<lambda>(oid, c, s). c) (\<lambda>(oid, c, s). s) review_delivery;
          result = map (\<lambda>(c, v). (if c \<in> set category_order then Some c else None, v)) result
      in sort_key (\<lambda>(c, v). category_rank c) result)"

subsection \<open>Month-over-month growth\<close>

text \<open>
  The result of a float division: \<open>Series.pct_change()\<close> computes
  \<open>x / x.shift(1) - 1\<close>, whose first entry is missing, and a division by zero gives an
  infinity (or NaN for \<open>0 / 0\<close>) instead of raising.
\<close>

datatype fval = NaN | PosInf | NegInf | Fin real

definition pct :: "real \<Rightarrow> real \<Rightarrow> fval" where
  "pct prev cur =
     (if prev = 0 then (if cur = 0 then NaN else if 0 < cur then PosInf else NegInf)
      else Fin (cur / prev - 1))"

fun pct_change_from :: "real \<Rightarrow> real list \<Rightarrow> fval list" where
  "pct_change_from prev [] = []"
| "pct_change_from prev (x # xs) = pct prev x # pct_change_from x xs"

definition pct_change :: "real list \<Rightarrow> fval list" where
  "pct_change xs = (case xs of [] \<Rightarrow> [] | x # xs' \<Rightarrow> NaN # pct_change_from x xs')"

text \<open>
  A row of the monthly revenue table is its key columns (a month, or a year and a month)
  with the revenue; the result adds the column \<open>mom_growth\<close>.
\<close>

definition calculate_mom_growth :: "('k \<times> real) list \<Rightarrow> (('k \<times> real) \<times> fval) list" where
  "calculate_mom_growth revenue_by_month =
     zip revenue_by_month (pct_change (map snd revenue_by_month))"

section \<open>Delivery speed buckets\<close>

text \<open>
  \<open>delivery_speed_days\<close> is a float column when a delivery date is missing, and
  \<open>Series.apply\<close> calls the function on the NaN as well. Every comparison with NaN is
  false.
\<close>

definition days_le :: "int option \<Rightarrow> int \<Rightarrow> bool" where
  "days_le days n = (case days of None \<Rightarrow> False | Some d \<Rightarrow> d \<le> n)"

definition categorize_delivery_speed :: "int option \<Rightarrow> string" where
  "categorize_delivery_speed days =
     (if days_le days 3 then ''1-3 days''
      else if days_le days 7 then ''4-7 days''
      else ''8+ days'')"

text \<open>
  \<open>sales['delivery_category'] = sales['delivery_speed_days'].apply(categorize_delivery_speed)\<close>
\<close>

definition assign_delivery_category :: "sales_row list \<Rightarrow> sales_row list" where
  "assign_delivery_category sales =
     map (\<lambda>r. r\<lparr>delivery_category := Some (categorize_delivery_speed (delivery_speed_days r))\<rparr>) sales"

section \<open>Calendar arithmetic of timestamps\<close>

text \<open>
  \<open>pd.Timestamp(year=y, month=m, day=d)\<close> is the number of nanoseconds from
  1970-01-01 00:00:00 to midnight of that day of the proleptic Gregorian calendar, held
  in a signed 64-bit integer whose least value is reserved for NaT. The day count is the
  one of Python's \<open>date.toordinal\<close> (day 1 is 0001-01-01).
\<close>

definition is_leap :: "int \<Rightarrow> bool" where
  "is_leap y = (y mod 4 = 0 \<and> (y mod 100 \<noteq> 0 \<or> y mod 400 = 0))"

definition days_in_month :: "int \<Rightarrow> int \<Rightarrow> int" where
  "days_in_month y m =
     (if m = 2 then (if is_leap y then 29 else 28)
      else if m = 4 \<or> m = 6 \<or> m = 9 \<or> m = 11 then 30
      else 31)"

definition days_before_year :: "int \<Rightarrow> int" where
  "days_before_year y = 365 * (y - 1) + (y - 1) div 4 - (y - 1) div 100 + (y - 1) div 400"

definition days_before_month :: "int \<Rightarrow> int \<Rightarrow> int" where
  "days_before_month y m = sum_list (map (\<lambda>i. days_in_month y (int i)) [1 ..< nat m])"

definition ymd2ord :: "int \<Rightarrow> int \<Rightarrow> int \<Rightarrow> int" where
  "ymd2ord y m d = days_before_year y + days_before_month y m + d"

definition epoch_ord :: int where
  "epoch_ord = 719163"

definition ns_per_second :: int where
  "ns_per_second = 1000000000"

definition ns_per_day :: int where
  "ns_per_day = 86400 * ns_per_second"

definition ts_min :: int where
  "ts_min = - (2 ^ 63) + 1"

definition ts_max :: int where
  "ts_max = 2 ^ 63 - 1"

definition in_bounds :: "int \<Rightarrow> error + int" where
  "in_bounds t = (if ts_min \<le> t \<and> t \<le> ts_max then Inr t else Inl OutOfBoundsDatetime)"

definition Timestamp :: "int \<Rightarrow> int \<Rightarrow> int \<Rightarrow> error + int" where
  "Timestamp y m d =
     (if y < 1 \<or> 9999 < y \<or> m < 1 \<or> 12 < m \<or> d < 1 \<or> days_in_month y m < d
      then Inl ValueError
      else in_bounds ((ymd2ord y m d - epoch_ord) * ns_per_day))"

text \<open>\<open>Timestamp + Timedelta\<close>, the Timedelta given in nanoseconds.\<close>

definition ts_add :: "int \<Rightarrow> int \<Rightarrow> error + int" where
  "ts_add t delta = in_bounds (t + delta)"

section \<open>Period filter\<close>

text \<open>
  \<open>pd.to_datetime\<close> on a column: a parsed or missing cell stays as it is, a text cell is
  parsed. The parser of pandas is a parameter: \<open>None\<close> is a text it rejects (the call
  raises), \<open>Some None\<close> a text it reads as NaT, \<open>Some (Some t)\<close> the instant it reads.
\<close>

type_synonym parser = "string \<Rightarrow> int option option"

definition to_datetime_cell :: "parser \<Rightarrow> datecell \<Rightarrow> error + datecell" where
  "to_datetime_cell parse c =
     (case c of
        NaT \<Rightarrow> Inr NaT
      | Stamp t \<Rightarrow> Inr (Stamp t)
      | Text s \<Rightarrow> (case parse s of
                    None \<Rightarrow> Inl ParserError
                  | Some None \<Rightarrow> Inr NaT
                  | Some (Some t) \<Rightarrow> Inr (Stamp t)))"

fun to_datetime :: "parser \<Rightarrow> datecell list \<Rightarrow> error + datecell list" where
  "to_datetime parse [] = Inr []"
| "to_datetime parse (c # cs) =
     (case to_datetime_cell parse c of
        Inl e \<Rightarrow> Inl e
      | Inr c' \<Rightarrow> (case to_datetime parse cs of
                    Inl e \<Rightarrow> Inl e
                  | Inr cs' \<Rightarrow> Inr (c' # cs')))"

text \<open>
  The frames live in a store, addressed by their position: the function copies its
  argument, overwrites the date column of the copy and selects rows into a third frame.
\<close>

type_synonym frame = "sales_row list"

type_synonym store = "frame list"

definition df_copy :: "store \<Rightarrow> nat \<Rightarrow> store \<times> nat" where
  "df_copy s r = (s @ [s ! r], length s)"

definition set_date_column :: "store \<Rightarrow> nat \<Rightarrow> datecell list \<Rightarrow> store" where
  "set_date_column s r col =
     s[r := map (\<lambda>(row, c). row\<lparr>order_purchase_timestamp := c\<rparr>) (zip (s ! r) col)]"

text \<open>
  The mask \<open>(df[col] >= start_date) & (df[col] <= end_date)\<close>: a comparison with NaT is
  false.
\<close>

definition between_dates :: "int \<Rightarrow> int \<Rightarrow> datecell \<Rightarrow> bool" where
  "between_dates start_date end_date c =
     (case c of Stamp t \<Rightarrow> start_date \<le> t \<and> t \<le> end_date | _ \<Rightarrow> False)"

definition df_select :: "store \<Rightarrow> nat \<Rightarrow> (sales_row \<Rightarrow> bool) \<Rightarrow> store \<times> nat" where
  "df_select s r keep = (s @ [filter keep (s ! r)], length s)"

definition end_of_month :: "int \<Rightarrow> int \<Rightarrow> error + int" where
  "end_of_month end_year end_month =
     (case (if end_month = 12 then Timestamp (end_year + 1) 1 1
            else Timestamp end_year (end_month + 1) 1) of
        Inl e \<Rightarrow> Inl e
      | Inr first_of_next \<Rightarrow>
          (case ts_add first_of_next (- ns_per_day) of
             Inl e \<Rightarrow> Inl e
           | Inr end_date \<Rightarrow> ts_add end_date ((23 * 3600 + 59 * 60 + 59) * ns_per_second)))"

definition filter_by_date_range_store ::
  "parser \<Rightarrow> store \<Rightarrow> nat \<Rightarrow> int \<Rightarrow> int \<Rightarrow> int \<Rightarrow> int \<Rightarrow> store \<times> (error + nat)" where
  "filter_by_date_range_store parse s df start_year start_month end_year end_month =
     (let (s1, df1) = df_copy s df in
      case to_datetime parse (map order_purchase_timestamp (s1 ! df1)) of
        Inl e \<Rightarrow> (s1, Inl e)
      | Inr col \<Rightarrow>
          (let s2 = set_date_column s1 df1 col in
           case Timestamp start_year start_month 1 of
             Inl e \<Rightarrow> (s2, Inl e)
           | Inr start_date \<Rightarrow>
               (case end_of_month end_year end_month of
                  Inl e \<Rightarrow> (s2, Inl e)
                | Inr end_date \<Rightarrow>
                    (let (s3, filtered_df) =
                           df_select s2 df1
                             (\<lambda>r. between_dates start_date end_date (order_purchase_timestamp r))
                     in (s3, Inr filtered_df)))))"

text \<open>The function on values: the frame it returns when run on a store holding its argument.\<close>

definition filter_by_date_range ::
  "parser \<Rightarrow> frame \<Rightarrow> int \<Rightarrow> int \<Rightarrow> int \<Rightarrow> int \<Rightarrow> error + frame" where
  "filter_by_date_range parse df start_year start_month end_year end_month =
     (case filter_by_date_range_store parse [df] 0 start_year start_month end_year end_month of
        (s', Inl e) \<Rightarrow> Inl e
      | (s', Inr out) \<Rightarrow> Inr (s' ! out))"

section \<open>The specification's wording\<close>

text \<open>
  The order-deduplicated projection of the specification: one representative row per
  \<open>order_id\<close>, the first occurrence.
\<close>

fun first_per_order :: "string list \<Rightarrow> sales_row list \<Rightarrow> sales_row list" where
  "first_per_order seen [] = []"
| "first_per_order seen (r # rows) =
     (if order_id r \<in> set seen then first_per_order seen rows
      else r # first_per_order (order_id r # seen) rows)"

text \<open>
  The specification's \<open>average_review_score\<close>: the mean of the score over the
  order-deduplicated rows, missing scores excluded.
\<close>

definition average_review_score_per_order :: "sales_row list \<Rightarrow> real option" where
  "average_review_score_per_order rows = mean_skipna (map review_score (first_per_order [] rows))"

text \<open>
  A table \<open>t\<close> is the sum of price grouped by \<open>key\<close>: it lists every key value that
  occurs, once and in ascending order, with the sum of the prices of the rows that carry it.
\<close>

definition sum_of_price_grouped_by ::
  "(sales_row \<Rightarrow> ('k :: linorder) option) \<Rightarrow> sales_row list \<Rightarrow> ('k \<times> real) list \<Rightarrow> bool" where
  "sum_of_price_grouped_by key rows t =
     (sorted (map fst t) \<and> distinct (map fst t) \<and>
      Some ` set (map fst t) = key ` set rows - {None} \<and>
      (\<forall>(k, v) \<in> set t. v = sum_list (map price (filter (\<lambda>r. key r = Some k) rows))))"

section \<open>Example tables\<close>

text \<open>A line item of which only the order, the item number and the price are known.\<close>

definition item :: "string \<Rightarrow> nat \<Rightarrow> real \<Rightarrow> sales_row" where
  "item oid n p =
     \<lparr>order_id = oid, order_item_id = n, price = p, order_purchase_timestamp = NaT,
      year = None, month = None, product_category_name = None, customer_state = None,
      review_score = None, delivery_speed_days = None, delivery_category = None\<rparr>"

text \<open>Order A with two line items priced 10 and 20, order B with one priced 50.\<close>

definition two_orders :: "sales_row list" where
  "two_orders = [item ''A'' 1 10, item ''A'' 2 20, item ''B'' 1 50]"

definition reviewed :: "string \<Rightarrow> nat \<Rightarrow> real \<Rightarrow> sales_row" where
  "reviewed oid n sc = (item oid n 10)\<lparr>review_score := Some sc\<rparr>"

text \<open>Order A, reviewed 5, has two line items; order B, reviewed 2, has one.\<close>

definition fan_out :: "sales_row list" where
  "fan_out = [reviewed ''A'' 1 5, reviewed ''A'' 2 5, reviewed ''B'' 1 2]"

definition delivered :: "string \<Rightarrow> int option \<Rightarrow> real \<Rightarrow> sales_row" where
  "delivered oid days sc = (item oid 1 10)\<lparr>review_score := Some sc, delivery_speed_days := days\<rparr>"

text \<open>Order A took 9 days and is reviewed 5; order B has no delivery date and is reviewed 1.\<close>

definition late_and_missing :: "sales_row list" where
  "late_and_missing = [delivered ''A'' (Some 9) 5, delivered ''B'' None 1]"

definition dated :: "int \<Rightarrow> int \<Rightarrow> real \<Rightarrow> sales_row" where
  "dated y m p = (item ''A'' 1 p)\<lparr>year := Some y, month := Some m\<rparr>"

definition three_months :: "sales_row list" where
  "three_months = [dated 2023 2 5, dated 2022 12 7, dated 2023 2 1]"

section \<open>Growth between two periods\<close>

text \<open>
  C5. For every current value, negative ones included, the growth over a previous value
  of zero is exactly 0; over any other previous value it is
  \<open>(current - previous) / previous\<close>.
\<close>

theorem revenue_growth_zero_policy:
  "calculate_revenue_growth x 0 = 0 \<and>
   (p \<noteq> 0 \<longrightarrow> calculate_revenue_growth x p = (x - p) / p)"
  by (simp add: calculate_revenue_growth_def)

theorem revenue_growth_zero_policy_witness:
  "calculate_revenue_growth (- 5) 0 = 0 \<and> (4::real) \<noteq> 0 \<and>
   calculate_revenue_growth 6 4 = 1 / 2"
  using revenue_growth_zero_policy [of "- 5" 4] revenue_growth_zero_policy [of 6 4]
  by simp


section \<open>Grouping\<close>

lemma set_map_filter: "set (List.map_filter f xs) = {y. \<exists>x \<in> set xs. f x = Some y}"
  by (induction xs) (auto simp: List.map_filter_simps split: option.splits)

lemma group_keys_set: "set (group_keys key rows) = {k. \<exists>r \<in> set rows. key r = Some k}"
  by (simp add: group_keys_def set_map_filter)

lemma group_keys_distinct: "distinct (group_keys key rows)"
  by (simp add: group_keys_def)

lemma group_keys_sorted: "sorted (group_keys key rows)"
  by (simp add: group_keys_def)

lemma keys_groupby_sum: "map fst (groupby_sum key val rows) = group_keys key rows"
  by (simp add: groupby_sum_def comp_def)

lemma some_keys: "Some ` {k. \<exists>r \<in> S. key r = Some k} = key ` S - {None}"
proof (rule set_eqI)
  fix x :: "'a option"
  show "x \<in> Some ` {k. \<exists>r \<in> S. key r = Some k} \<longleftrightarrow> x \<in> key ` S - {None}"
  proof (cases x)
    case None
    then show ?thesis by auto
  next
    case (Some k)
    then show ?thesis by (auto simp: image_iff) (metis)+
  qed
qed

lemma sum_list_indicator:
  "distinct ks \<Longrightarrow>
   sum_list (map (\<lambda>k. if k = k0 then (c::real) else 0) ks) = (if k0 \<in> set ks then c else 0)"
  by (induction ks) auto

text \<open>Summing the groups of distinct keys sums every row that carries one of the keys once.\<close>

lemma sum_groups:
  "distinct ks \<Longrightarrow>
   sum_list (map (\<lambda>k. sum_list (map val (group_rows key rows k))) ks) =
   sum_list (map (val :: 'r \<Rightarrow> real) (filter (\<lambda>r. \<exists>k \<in> set ks. key r = Some k) rows))"
proof (induction rows)
  case Nil
  then show ?case by (simp add: group_rows_def)
next
  case (Cons r rows)
  have split: "\<And>k. sum_list (map val (group_rows key (r # rows) k)) =
      (if key r = Some k then val r else 0) + sum_list (map val (group_rows key rows k))"
    by (simp add: group_rows_def)
  show ?case
  proof (cases "key r")
    case None
    then show ?thesis using Cons by (simp add: split)
  next
    case (Some k0)
    have "sum_list (map (\<lambda>k. if Some k0 = Some k then val r else 0) ks) =
          (if k0 \<in> set ks then val r else 0)"
      using sum_list_indicator [OF Cons.prems, of k0 "val r"] by (simp add: eq_commute)
    then show ?thesis using Cons Some by (simp add: split sum_list_addf)
  qed
qed

lemma groupby_sum_total:
  "sum_list (map snd (groupby_sum key val rows)) =
   sum_list (map val (filter (\<lambda>r. key r \<noteq> None) rows))"
proof -
  have "filter (\<lambda>r. \<exists>k \<in> set (group_keys key rows). key r = Some k) rows =
        filter (\<lambda>r. key r \<noteq> None) rows"
    by (rule filter_cong) (auto simp: group_keys_set)
  then show ?thesis
    using sum_groups [OF group_keys_distinct, of val key rows key rows]
    by (simp add: groupby_sum_def comp_def)
qed

lemma groupby_sum_grouped: "sum_of_price_grouped_by key rows (groupby_sum key price rows)"
  unfolding sum_of_price_grouped_by_def keys_groupby_sum
  by (auto simp: group_keys_sorted group_keys_distinct group_keys_set some_keys
      groupby_sum_def group_rows_def)

lemma sum_list_insort_key:
  "sum_list (map g (insort_key f x xs)) = (g x :: real) + sum_list (map g xs)"
  by (induction xs) auto

lemma sum_list_sort_key: "sum_list (map g (sort_key f xs)) = (sum_list (map g xs) :: real)"
  by (induction xs) (auto simp: sum_list_insort_key)

section \<open>Totals per order\<close>

lemma two_orders_keys: "group_keys (\<lambda>r. Some (order_id r)) two_orders = [''A'', ''B'']"
  by (simp add: group_keys_def two_orders_def item_def)

text \<open>
  C9. On the table of two orders, A with two line items priced 10 and 20 and B with one
  line item priced 50, the total revenue is 80, there are 2 orders, the average order
  value is 40 and there are 1.5 items per order.
\<close>

theorem two_orders_scenario:
  "calculate_total_revenue two_orders = 80 \<and>
   calculate_total_orders two_orders = 2 \<and>
   calculate_average_order_value two_orders = Some 40 \<and>
   calculate_items_per_order two_orders = Some 1.5"
proof -
  have 1: "calculate_total_revenue two_orders = 80"
    by (simp add: calculate_total_revenue_def two_orders_def item_def)
  have 2: "calculate_total_orders two_orders = 2"
    by (simp add: calculate_total_orders_def two_orders_def item_def)
  have 3: "calculate_average_order_value two_orders = Some 40"
    unfolding calculate_average_order_value_def groupby_sum_def two_orders_keys
    by (simp add: group_rows_def mean_def two_orders_def item_def)
  have 4: "calculate_items_per_order two_orders = Some 1.5"
    unfolding calculate_items_per_order_def groupby_size_def two_orders_keys
    by (simp add: group_rows_def mean_def two_orders_def item_def)
  show ?thesis using 1 2 3 4 by simp
qed

section \<open>Review scores\<close>

text \<open>
  When every row carries the same score, the number of line items does not show in the
  average.
\<close>

lemma average_review_score_same_score:
  assumes "rows \<noteq> []" and "\<forall>r \<in> set rows. review_score r = Some c"
  shows "calculate_average_review_score rows = Some c"
proof -
  have "List.map_filter id (map review_score rows) = replicate (length rows) c"
    using assms(2) by (induction rows) (auto simp: List.map_filter_simps)
  then show ?thesis using assms(1)
    by (simp add: calculate_average_review_score_def mean_skipna_def mean_def sum_list_replicate)
qed

text \<open>
  C1. The average review score is the mean of the score over the rows deduplicated to one
  per order. The code averages the column over all line items: on the table where order A
  (score 5) has two line items and order B (score 2) has one, it returns 4, while the mean
  over the two orders is 3.5.
\<close>

theorem average_review_score_counts_line_items:
  "calculate_average_review_score fan_out = Some 4 \<and>
   average_review_score_per_order fan_out = Some (7 / 2)"
  by (simp add: calculate_average_review_score_def average_review_score_per_order_def
      mean_skipna_def mean_def fan_out_def reviewed_def item_def)

section \<open>Delivery buckets\<close>

lemma categorize_delivery_speed_buckets:
  "categorize_delivery_speed (Some d) =
     (if d \<le> 3 then ''1-3 days'' else if d \<le> 7 then ''4-7 days'' else ''8+ days'')"
  by (simp add: categorize_delivery_speed_def days_le_def)

text \<open>
  C2. A row whose delivery days are missing gets no delivery category and stays out of the
  delivery-bucket aggregates. The code puts it into the bucket "8+ days": with order A
  delivered in 9 days and reviewed 5, and order B without a delivery date and reviewed 1,
  both rows carry "8+ days" and the bucket's average review is 3 instead of 5.
\<close>

theorem missing_delivery_days_bucketed_as_late:
  "categorize_delivery_speed None = ''8+ days'' \<and>
   map delivery_category (assign_delivery_category late_and_missing) =
     [Some ''8+ days'', Some ''8+ days''] \<and>
   calculate_review_by_delivery_speed (assign_delivery_category late_and_missing) =
     [(Some ''8+ days'', Some 3)]"
  by (simp add: categorize_delivery_speed_def days_le_def assign_delivery_category_def
      late_and_missing_def delivered_def item_def calculate_review_by_delivery_speed_def
      groupby_mean_def group_keys_def group_rows_def mean_skipna_def mean_def
      category_order_def category_rank_def)

section \<open>Revenue by category\<close>

text \<open>
  C3, as the code has it. The output is sorted non-increasing by revenue; its categories
  are the categories that occur, a missing category forming no group; the revenues sum to
  the total revenue of the rows that have a category.
\<close>

theorem revenue_by_category_sorted_partition:
  "sorted_wrt (\<ge>) (map snd (calculate_revenue_by_category rows)) \<and>
   sum_list (map snd (calculate_revenue_by_category rows)) =
     calculate_total_revenue (filter (\<lambda>r. product_category_name r \<noteq> None) rows) \<and>
   Some ` set (map fst (calculate_revenue_by_category rows)) =
     product_category_name ` set rows - {None}"
proof -
  let ?g = "groupby_sum product_category_name price rows"
  have "sorted (map (\<lambda>(c, v). - v) (sort_key (\<lambda>(c, v). - v) ?g))"
    by (rule sorted_sort_key)
  then have 1: "sorted_wrt (\<ge>) (map snd (calculate_revenue_by_category rows))"
    by (simp add: calculate_revenue_by_category_def sorted_wrt_map case_prod_beta)
  have 2: "sum_list (map snd (calculate_revenue_by_category rows)) =
     calculate_total_revenue (filter (\<lambda>r. product_category_name r \<noteq> None) rows)"
    by (simp add: calculate_revenue_by_category_def sum_list_sort_key groupby_sum_total
        calculate_total_revenue_def)
  have "set (map fst (calculate_revenue_by_category rows)) = set (map fst ?g)"
    by (simp add: calculate_revenue_by_category_def)
  then have "set (map fst (calculate_revenue_by_category rows)) =
      set (group_keys product_category_name rows)"
    by (simp only: keys_groupby_sum)
  then have 3: "Some ` set (map fst (calculate_revenue_by_category rows)) =
      product_category_name ` set rows - {None}"
    by (simp add: group_keys_set some_keys)
  show ?thesis using 1 2 3 by blast
qed

text \<open>
  On a table of one line item priced 10 whose category is missing, there is no group at
  all and the group revenues sum to 0, not to the total revenue 10.
\<close>

theorem revenue_by_category_null_dropped_counterexample:
  "calculate_revenue_by_category [item ''A'' 1 10] = [] \<and>
   sum_list (map snd (calculate_revenue_by_category [item ''A'' 1 10])) \<noteq>
     calculate_total_revenue [item ''A'' 1 10]"
  by (simp add: calculate_revenue_by_category_def groupby_sum_def group_keys_def
      calculate_total_revenue_def item_def)

section \<open>Revenue by period\<close>

text \<open>
  C7. A period other than year, month and year-month is refused with an error (Python's
  ValueError); for each of the three, the result is the sum of price grouped by year, by
  month, and by year and month.
\<close>

theorem revenue_by_period_supported_or_error:
  "(period \<noteq> ''year'' \<and> period \<noteq> ''month'' \<and> period \<noteq> ''year-month'' \<longrightarrow>
      calculate_revenue_by_period rows period = Inl ValueError) \<and>
   (\<exists>t. calculate_revenue_by_period rows ''year'' = Inr (ByYear t) \<and>
        sum_of_price_grouped_by year rows t) \<and>
   (\<exists>t. calculate_revenue_by_period rows ''month'' = Inr (ByMonth t) \<and>
        sum_of_price_grouped_by month rows t) \<and>
   (\<exists>t. calculate_revenue_by_period rows ''year-month'' = Inr (ByYearMonth t) \<and>
        sum_of_price_grouped_by
          (\<lambda>r. case (year r, month r) of (Some y, Some m) \<Rightarrow> Some (y, m) | _ \<Rightarrow> None) rows t)"
proof -
  have ym: "year_month =
      (\<lambda>r. case (year r, month r) of (Some y, Some m) \<Rightarrow> Some (y, m) | _ \<Rightarrow> None)"
    by (rule ext) (simp add: year_month_def split: option.splits)
  show ?thesis
    unfolding ym [symmetric]
    by (simp add: calculate_revenue_by_period_def groupby_sum_grouped)
qed

theorem revenue_by_period_supported_or_error_witness:
  "''week'' \<noteq> ''year'' \<and> ''week'' \<noteq> ''month'' \<and> ''week'' \<noteq> ''year-month'' \<and>
   calculate_revenue_by_period three_months ''week'' = Inl ValueError \<and>
   calculate_revenue_by_period three_months ''year'' = Inr (ByYear [(2022, 7), (2023, 6)]) \<and>
   sum_of_price_grouped_by year three_months [(2022, 7), (2023, 6)] \<and>
   calculate_revenue_by_period three_months ''year-month'' =
     Inr (ByYearMonth [((2022, 12), 7), ((2023, 2), 6)])"
proof -
  note inst = revenue_by_period_supported_or_error [of "''week''" three_months]
  have 1: "calculate_revenue_by_period three_months ''week'' = Inl ValueError"
    using inst by simp
  have y: "calculate_revenue_by_period three_months ''year'' = Inr (ByYear [(2022, 7), (2023, 6)])"
    by (simp add: calculate_revenue_by_period_def groupby_sum_def group_keys_def group_rows_def
        three_months_def dated_def item_def)
  from inst obtain t where "calculate_revenue_by_period three_months ''year'' = Inr (ByYear t)"
    and "sum_of_price_grouped_by year three_months t" by blast
  with y have 2: "sum_of_price_grouped_by year three_months [(2022, 7), (2023, 6)]" by simp
  have 3: "calculate_revenue_by_period three_months ''year-month'' =
     Inr (ByYearMonth [((2022, 12), 7), ((2023, 2), 6)])"
    by (simp add: calculate_revenue_by_period_def groupby_sum_def group_keys_def group_rows_def
        three_months_def dated_def item_def year_month_def)
  show ?thesis using 1 y 2 3 by simp
qed

section \<open>Month-over-month growth\<close>

lemma length_pct_change_from: "length (pct_change_from p xs) = length xs"
  by (induction xs arbitrary: p) auto

lemma length_pct_change: "length (pct_change xs) = length xs"
  by (simp add: pct_change_def length_pct_change_from split: list.splits)

lemma nth_pct_change_from:
  "i < length xs \<Longrightarrow> pct_change_from p xs ! i = pct ((p # xs) ! i) (xs ! i)"
proof (induction xs arbitrary: p i)
  case Nil
  then show ?case by simp
next
  case (Cons x xs)
  then show ?case by (cases i) auto
qed

lemma nth_pct_change:
  "0 < i \<Longrightarrow> i < length xs \<Longrightarrow> pct_change xs ! i = pct (xs ! (i - 1)) (xs ! i)"
  by (cases xs; cases i) (auto simp: pct_change_def nth_pct_change_from)

lemma pct_defined: "p \<noteq> 0 \<Longrightarrow> pct p c = Fin ((c - p) / p)"
  by (simp add: pct_def diff_divide_distrib)

lemma count_pct_change_from:
  "p \<noteq> 0 \<Longrightarrow> \<forall>x \<in> set xs. x \<noteq> 0 \<Longrightarrow>
   length (filter (\<lambda>g. g \<noteq> NaN) (pct_change_from p xs)) = length xs"
  by (induction xs arbitrary: p) (auto simp: pct_def)

text \<open>
  C4, as the code has it. The function keeps the rows in the order given (it does not
  sort them) and adds one growth value per row: the first is missing, and each later one
  is the relative change from the row before it, defined whenever that row's revenue is
  not zero. On N rows of non-zero revenue, N - 1 growth values are defined.
\<close>

theorem mom_growth_adjacent_in_given_order:
  "length (calculate_mom_growth rows) = length rows \<and>
   map fst (calculate_mom_growth rows) = rows \<and>
   (rows \<noteq> [] \<longrightarrow> snd (calculate_mom_growth rows ! 0) = NaN) \<and>
   (\<forall>i. 0 < i \<and> i < length rows \<and> snd (rows ! (i - 1)) \<noteq> 0 \<longrightarrow>
        snd (calculate_mom_growth rows ! i) =
        Fin ((snd (rows ! i) - snd (rows ! (i - 1))) / snd (rows ! (i - 1)))) \<and>
   ((\<forall>r \<in> set rows. snd r \<noteq> 0) \<longrightarrow>
        length (filter (\<lambda>g. g \<noteq> NaN) (map snd (calculate_mom_growth rows))) = length rows - 1)"
proof -
  have len: "length (pct_change (map snd rows)) = length rows"
    by (simp add: length_pct_change)
  have 1: "length (calculate_mom_growth rows) = length rows"
    by (simp add: calculate_mom_growth_def len)
  have 2: "map fst (calculate_mom_growth rows) = rows"
    by (simp add: calculate_mom_growth_def len)
  have growths: "map snd (calculate_mom_growth rows) = pct_change (map snd rows)"
    by (simp add: calculate_mom_growth_def len)
  have nth: "\<And>i. i < length rows \<Longrightarrow>
      snd (calculate_mom_growth rows ! i) = pct_change (map snd rows) ! i"
    by (simp add: calculate_mom_growth_def len)
  have 3: "rows \<noteq> [] \<longrightarrow> snd (calculate_mom_growth rows ! 0) = NaN"
    by (cases rows) (auto simp: calculate_mom_growth_def pct_change_def)
  have 4: "\<forall>i. 0 < i \<and> i < length rows \<and> snd (rows ! (i - 1)) \<noteq> 0 \<longrightarrow>
        snd (calculate_mom_growth rows ! i) =
        Fin ((snd (rows ! i) - snd (rows ! (i - 1))) / snd (rows ! (i - 1)))"
    by (auto simp: nth nth_pct_change pct_defined)
  have 5: "(\<forall>r \<in> set rows. snd r \<noteq> 0) \<longrightarrow>
        length (filter (\<lambda>g. g \<noteq> NaN) (map snd (calculate_mom_growth rows))) = length rows - 1"
    unfolding growths
    by (cases rows) (auto simp: pct_change_def count_pct_change_from)
  show ?thesis using 1 2 3 4 5 by blast
qed

theorem mom_growth_adjacent_in_given_order_witness:
  "[((2023::int, 1::int), 100), ((2023, 2), 200), ((2023, 3), 150)] \<noteq> [] \<and>
   snd (calculate_mom_growth [((2023::int, 1::int), 100), ((2023, 2), 200), ((2023, 3), 150)] ! 0) = NaN \<and>
   snd (calculate_mom_growth [((2023::int, 1::int), 100), ((2023, 2), 200), ((2023, 3), 150)] ! 1) = Fin 1 \<and>
   length (filter (\<lambda>g. g \<noteq> NaN)
     (map snd (calculate_mom_growth [((2023::int, 1::int), 100), ((2023, 2), 200), ((2023, 3), 150)]))) = 2"
proof -
  let ?rows = "[((2023::int, 1::int), 100::real), ((2023, 2), 200), ((2023, 3), 150)]"
  note inst = mom_growth_adjacent_in_given_order [of ?rows]
  have 1: "snd (calculate_mom_growth ?rows ! 0) = NaN"
    using inst by simp
  from inst have "0 < (1::nat) \<and> 1 < length ?rows \<and> snd (?rows ! (1 - 1)) \<noteq> 0 \<longrightarrow>
      snd (calculate_mom_growth ?rows ! 1) =
      Fin ((snd (?rows ! 1) - snd (?rows ! (1 - 1))) / snd (?rows ! (1 - 1)))"
    by blast
  then have 2: "snd (calculate_mom_growth ?rows ! 1) = Fin 1"
    by simp
  from inst have "(\<forall>r \<in> set ?rows. snd r \<noteq> 0) \<longrightarrow>
      length (filter (\<lambda>g. g \<noteq> NaN) (map snd (calculate_mom_growth ?rows))) = length ?rows - 1"
    by blast
  then have 3: "length (filter (\<lambda>g. g \<noteq> NaN) (map snd (calculate_mom_growth ?rows))) = 2"
    by simp
  show ?thesis using 1 2 3 by simp
qed

text \<open>
  The claim says that permuting the rows before the call does not change the result.
  February given before January gets the missing growth, and January a growth of - 1 / 2,
  so the rows of the result differ from those for the chronological order.
\<close>

theorem mom_growth_permutation_counterexample:
  "set (calculate_mom_growth [((2023::int, 2::int), 200), ((2023, 1), 100)]) \<noteq>
   set (calculate_mom_growth [((2023, 1), 100), ((2023, 2), 200)])"
proof
  assume eq: "set (calculate_mom_growth [((2023::int, 2::int), 200), ((2023, 1), 100)]) =
   set (calculate_mom_growth [((2023, 1), 100), ((2023, 2), 200)])"
  have "(((2023::int, 2::int), 200), NaN) \<in>
      set (calculate_mom_growth [((2023, 2), 200), ((2023, 1), 100)])"
    by (simp add: calculate_mom_growth_def pct_change_def)
  then have "(((2023::int, 2::int), 200), NaN) \<in>
      set (calculate_mom_growth [((2023, 1), 100), ((2023, 2), 200)])"
    using eq by simp
  then show False
    by (simp add: calculate_mom_growth_def pct_change_def pct_def)
qed

end
